theory Spec2Isabelle
  imports Complex_Main
begin

section \<open>JSON values as the handlers see them\<close>

text \<open>
  The value that \<open>req.json()\<close> resolves to. A number is the rational value of the
  parsed double (both zeros are \<open>0\<close>), or one of the two infinities that a literal
  beyond the range of a double parses to (\<open>JInfinity True\<close> is the negative one). An
  object is the list of its own properties, each key once.
\<close>

datatype json =
    JNull
  | JBool bool
  | JNum rat
  | JInfinity bool
  | JStr string
  | JArr "json list"
  | JObj "(string \<times> json) list"

text \<open>JavaScript truthiness, as used by \<open>!v\<close> and \<open>v || w\<close>.\<close>

fun truthy :: "json \<Rightarrow> bool" where
  "truthy JNull = False"
| "truthy (JBool b) = b"
| "truthy (JNum n) = (n \<noteq> 0)"
| "truthy (JInfinity neg) = True"
| "truthy (JStr s) = (s \<noteq> [])"
| "truthy (JArr xs) = True"
| "truthy (JObj kvs) = True"

text \<open>
  Property read \<open>v.k\<close> for the three keys the handlers read (\<open>title\<close>, \<open>content\<close>,
  \<open>author\<close>); \<open>None\<close> is \<open>undefined\<close>. Arrays, strings, numbers and booleans have no
  such property. Every read in the handlers is guarded by \<open>!body\<close>, so the read on
  \<open>null\<close> (a TypeError in JavaScript) is never reached.
\<close>

fun get_prop :: "json \<Rightarrow> string \<Rightarrow> json option" where
  "get_prop (JObj kvs) k = map_of kvs k"
| "get_prop v k = None"

text \<open>Truthiness of a possibly undefined value.\<close>

fun truthy_opt :: "json option \<Rightarrow> bool" where
  "truthy_opt None = False"
| "truthy_opt (Some v) = truthy v"

text \<open>\<open>a || b\<close> where \<open>a\<close> may be undefined and \<open>b\<close> is a value.\<close>

definition or_else :: "json option \<Rightarrow> json \<Rightarrow> json" where
  "or_else a b = (case a of None \<Rightarrow> b | Some v \<Rightarrow> if truthy v then v else b)"

section \<open>Posts, requests, responses\<close>

text \<open>
  A post object. \<open>title\<close>, \<open>content\<close> and \<open>author\<close> hold whatever truthy JSON value
  the client sent; \<open>updatedAt\<close> is absent until the first update.
\<close>

record post =
  post_id :: string
  title :: json
  content :: json
  author :: json
  createdAt :: string
  updatedAt :: "string option"

text \<open>
  What a request supplies: its method, the path name of its URL, and the outcome of
  \<open>req.json()\<close> (\<open>None\<close> when it rejects).
\<close>

record request =
  req_method :: string
  path :: string
  req_json :: "json option"

text \<open>
  What the runtime supplies to one request: the 128 random bits behind
  \<open>crypto.randomUUID()\<close>, the text of \<open>new Date().toISOString()\<close>, and for
  \<open>main.js\<close> the text of \<open>new Date().toLocaleString()\<close> and the value of the
  environment variable \<open>DENO_DEPLOYMENT_ID\<close>.
\<close>

record env =
  entropy :: nat
  now :: string
  local_time :: string
  deployment_id :: "string option"

text \<open>
  A response is the status (200 when the source gives none), the headers object given
  to the \<open>Response\<close> constructor, and the body: nothing, the object handed to
  \<open>JSON.stringify\<close>, the static HTML page, or a text.
\<close>

datatype payload =
    Posts "post list"
  | Post post
  | Error string
  | Deleted string post
  | Data string string string

datatype resp_body =
    NoBody
  | JsonBody payload
  | HtmlBody
  | TextBody string

record response =
  status :: nat
  headers :: "(string \<times> string) list"
  body :: resp_body

section \<open>blog-api.js\<close>

definition posts :: "post list" where
  "posts =
    [\<lparr>post_id = ''1'',
      title = JStr ''Introduction to Deno Deploy'',
      content = JStr ''Deno Deploy is a distributed hosting service for Deno applications...'',
      author = JStr ''Deno User'',
      createdAt = ''2025-05-01T10:00:00Z'',
      updatedAt = None\<rparr>,
     \<lparr>post_id = ''2'',
      title = JStr ''Working with Deno KV'',
      content = JStr ''Deno KV provides a simple key-value storage solution...'',
      author = JStr ''Deno Fan'',
      createdAt = ''2025-05-02T14:30:00Z'',
      updatedAt = None\<rparr>]"

subsection \<open>Identifiers\<close>

text \<open>
  \<open>crypto.randomUUID()\<close>: a version 4 UUID printed from 16 random bytes, with the
  version nibble of byte 6 and the variant bits of byte 8 overwritten.
\<close>

definition hex_digit :: "nat \<Rightarrow> char" where
  "hex_digit n = ''0123456789abcdef'' ! (n mod 16)"

definition hex_byte :: "nat \<Rightarrow> string" where
  "hex_byte b = [hex_digit (b div 16), hex_digit b]"

definition byte_at :: "nat \<Rightarrow> nat \<Rightarrow> nat" where
  "byte_at r i = (r div 256 ^ (15 - i)) mod 256"

definition randomUUID :: "nat \<Rightarrow> string" where
  "randomUUID r =
     hex_byte (byte_at r 0) @ hex_byte (byte_at r 1) @
     hex_byte (byte_at r 2) @ hex_byte (byte_at r 3) @ ''-'' @
     hex_byte (byte_at r 4) @ hex_byte (byte_at r 5) @ ''-'' @
     hex_byte (64 + byte_at r 6 mod 16) @ hex_byte (byte_at r 7) @ ''-'' @
     hex_byte (128 + byte_at r 8 mod 64) @ hex_byte (byte_at r 9) @ ''-'' @
     hex_byte (byte_at r 10) @ hex_byte (byte_at r 11) @
     hex_byte (byte_at r 12) @ hex_byte (byte_at r 13) @
     hex_byte (byte_at r 14) @ hex_byte (byte_at r 15)"

definition generateId :: "env \<Rightarrow> string" where
  "generateId e = randomUUID (entropy e)"

subsection \<open>Body parsing and headers\<close>

text \<open>\<open>parseJsonBody\<close>: a rejected \<open>req.json()\<close> is caught and becomes \<open>null\<close>.\<close>

definition parseJsonBody :: "request \<Rightarrow> json" where
  "parseJsonBody req = (case req_json req of None \<Rightarrow> JNull | Some v \<Rightarrow> v)"

definition jsonHeaders :: "(string \<times> string) list" where
  "jsonHeaders = [(''content-type'', ''application/json'')]"

definition cors_headers :: "(string \<times> string) list" where
  "cors_headers = jsonHeaders @
     [(''Access-Control-Allow-Origin'', ''*''),
      (''Access-Control-Allow-Methods'', ''GET, POST, PUT, DELETE, OPTIONS''),
      (''Access-Control-Allow-Headers'', ''Content-Type'')]"

subsection \<open>Route matching\<close>

text \<open>\<open>s.split(c)\<close> for a one-character separator; the result is never empty.\<close>

fun js_split :: "char \<Rightarrow> string \<Rightarrow> string list" where
  "js_split c [] = [[]]"
| "js_split c (x # xs) =
     (if x = c then [] # js_split c xs
      else (case js_split c xs of
              [] \<Rightarrow> [[x]]
            | w # ws \<Rightarrow> (x # w) # ws))"

fun strip_prefix :: "string \<Rightarrow> string \<Rightarrow> string option" where
  "strip_prefix [] s = Some s"
| "strip_prefix (p # ps) [] = None"
| "strip_prefix (p # ps) (c # cs) = (if p = c then strip_prefix ps cs else None)"

text \<open>The class \<open>[\w-]\<close>: ASCII letters, digits, underscore, hyphen.\<close>

definition id_char :: "char \<Rightarrow> bool" where
  "id_char c \<longleftrightarrow>
     c \<in> set (''abcdefghijklmnopqrstuvwxyz'' @ ''ABCDEFGHIJKLMNOPQRSTUVWXYZ'' @
              ''0123456789'' @ ''_'' @ ''-'')"

text \<open>\<open>path.match(/^\/api\/posts\/[\w-]+$/)\<close> is truthy.\<close>

definition post_path_match :: "string \<Rightarrow> bool" where
  "post_path_match p =
     (case strip_prefix ''/api/posts/'' p of
        None \<Rightarrow> False
      | Some s \<Rightarrow> s \<noteq> [] \<and> list_all id_char s)"

text \<open>\<open>path.split("/").pop()\<close>.\<close>

definition path_id :: "string \<Rightarrow> string" where
  "path_id p = last (js_split CHR ''/'' p)"

text \<open>\<open>xs.findIndex(f)\<close>, with \<open>None\<close> for \<open>-1\<close>.\<close>

fun findIndex :: "('a \<Rightarrow> bool) \<Rightarrow> 'a list \<Rightarrow> nat option" where
  "findIndex f [] = None"
| "findIndex f (x # xs) =
     (if f x then Some 0 else map_option Suc (findIndex f xs))"

subsection \<open>The request handler\<close>

definition json_response :: "nat \<Rightarrow> payload \<Rightarrow> response" where
  "json_response st p = \<lparr>status = st, headers = cors_headers, body = JsonBody p\<rparr>"

text \<open>
  One call of the function given to \<open>Deno.serve\<close>: the response and the store after it.
  The branches are tried in the order of the source.
\<close>

definition handler :: "env \<Rightarrow> request \<Rightarrow> post list \<Rightarrow> response \<times> post list" where
  "handler e req ps =
    (if req_method req = ''OPTIONS'' then
       (\<lparr>status = 200, headers = cors_headers, body = NoBody\<rparr>, ps)
     else if path req = ''/api/posts'' \<and> req_method req = ''GET'' then
       (json_response 200 (Posts ps), ps)
     else if post_path_match (path req) \<and> req_method req = ''GET'' then
       (case find (\<lambda>p. post_id p = path_id (path req)) ps of
          None \<Rightarrow> (json_response 404 (Error ''Post not found''), ps)
        | Some p \<Rightarrow> (json_response 200 (Post p), ps))
     else if path req = ''/api/posts'' \<and> req_method req = ''POST'' then
       (let b = parseJsonBody req in
        if \<not> truthy b then
          (json_response 400 (Error ''Title and content are required''), ps)
        else if \<not> truthy_opt (get_prop b ''title'') then
          (json_response 400 (Error ''Title and content are required''), ps)
        else if \<not> truthy_opt (get_prop b ''content'') then
          (json_response 400 (Error ''Title and content are required''), ps)
        else
          (let newPost =
             \<lparr>post_id = generateId e,
              title = the (get_prop b ''title''),
              content = the (get_prop b ''content''),
              author = or_else (get_prop b ''author'') (JStr ''Anonymous''),
              createdAt = now e,
              updatedAt = None\<rparr>
           in (json_response 201 (Post newPost), ps @ [newPost])))
     else if post_path_match (path req) \<and> req_method req = ''PUT'' then
       (case findIndex (\<lambda>p. post_id p = path_id (path req)) ps of
          None \<Rightarrow> (json_response 404 (Error ''Post not found''), ps)
        | Some i \<Rightarrow>
           (let b = parseJsonBody req in
            if \<not> truthy b then
              (json_response 400 (Error ''Invalid request body''), ps)
            else
              (let updatedPost = (ps ! i)
                 \<lparr>title := or_else (get_prop b ''title'') (title (ps ! i)),
                  content := or_else (get_prop b ''content'') (content (ps ! i)),
                  author := or_else (get_prop b ''author'') (author (ps ! i)),
                  updatedAt := Some (now e)\<rparr>
               in (json_response 200 (Post updatedPost), ps[i := updatedPost]))))
     else if post_path_match (path req) \<and> req_method req = ''DELETE'' then
       (case findIndex (\<lambda>p. post_id p = path_id (path req)) ps of
          None \<Rightarrow> (json_response 404 (Error ''Post not found''), ps)
        | Some i \<Rightarrow>
           (json_response 200 (Deleted ''Post deleted successfully'' (ps ! i)),
            take i ps @ drop (Suc i) ps))
     else if path req = ''/'' then
       (\<lparr>status = 200, headers = [(''content-type'', ''text/html'')], body = HtmlBody\<rparr>, ps)
     else
       (json_response 404 (Error ''Not Found''), ps))"

section \<open>main.js\<close>

definition main_handler :: "env \<Rightarrow> request \<Rightarrow> response" where
  "main_handler e req =
    (if path req = ''/'' then
       \<lparr>status = 200, headers = [(''content-type'', ''text/plain'')],
        body = TextBody ''Welcome to my Deno Deploy API!''\<rparr>
     else if path req = ''/time'' then
       \<lparr>status = 200, headers = [(''content-type'', ''text/plain'')],
        body = TextBody (''Current server time: '' @ local_time e)\<rparr>
     else if path req = ''/data'' then
       \<lparr>status = 200, headers = [(''content-type'', ''application/json'')],
        body = JsonBody (Data ''This is JSON data from Deno Deploy'' (now e)
                 (case deployment_id e of
                    None \<Rightarrow> ''development''
                  | Some d \<Rightarrow> if d \<noteq> [] then ''production'' else ''development''))\<rparr>
     else
       \<lparr>status = 404, headers = [], body = TextBody ''Not Found''\<rparr>)"

section \<open>Auxiliary notions for the properties\<close>

text \<open>An identifier that the route pattern accepts: one or more characters of \<open>[\w-]\<close>.\<close>

definition valid_id :: "string \<Rightarrow> bool" where
  "valid_id k \<longleftrightarrow> k \<noteq> [] \<and> list_all id_char k"

text \<open>
  The requests that reach \<open>generateId()\<close> and \<open>posts.push\<close>: a \<open>POST /api/posts\<close>
  whose body, title and content are all truthy.
\<close>

definition creates :: "request \<Rightarrow> bool" where
  "creates req \<longleftrightarrow>
     req_method req = ''POST'' \<and> path req = ''/api/posts'' \<and>
     truthy (parseJsonBody req) \<and>
     truthy_opt (get_prop (parseJsonBody req) ''title'') \<and>
     truthy_opt (get_prop (parseJsonBody req) ''content'')"

text \<open>
  Requests served one after the other, each call of the handler finishing before the
  next begins, each with what the runtime supplied to it: the responses in order and
  the store at the end.
\<close>

fun serve :: "(env \<times> request) list \<Rightarrow> post list \<Rightarrow> response list \<times> post list" where
  "serve [] ps = ([], ps)"
| "serve ((e, req) # rest) ps =
     (case handler e req ps of
        (resp, ps') \<Rightarrow> (case serve rest ps' of (resps, ps'') \<Rightarrow> (resp # resps, ps'')))"

text \<open>The identifiers that \<open>crypto.randomUUID()\<close> returned during these requests, in order.\<close>

fun draws :: "(env \<times> request) list \<Rightarrow> string list" where
  "draws [] = []"
| "draws ((e, req) # rest) =
     (if creates req then generateId e # draws rest else draws rest)"

text \<open>
  The 122 of the 128 random bits that \<open>crypto.randomUUID()\<close> prints: every byte, less
  the high nibble of byte 6 and the two high bits of byte 8, which it overwrites.
\<close>

definition uuid_bits :: "nat \<Rightarrow> nat list" where
  "uuid_bits r =
     [byte_at r 0, byte_at r 1, byte_at r 2, byte_at r 3, byte_at r 4, byte_at r 5,
      byte_at r 6 mod 16, byte_at r 7, byte_at r 8 mod 64, byte_at r 9,
      byte_at r 10, byte_at r 11, byte_at r 12, byte_at r 13, byte_at r 14, byte_at r 15]"

text \<open>The random bits that the runtime handed to \<open>crypto.randomUUID()\<close> during these requests.\<close>

fun entropies :: "(env \<times> request) list \<Rightarrow> nat list" where
  "entropies [] = []"
| "entropies ((e, req) # rest) =
     (if creates req then entropy e # entropies rest else entropies rest)"

text \<open>The posts returned by the \<open>201\<close> responses among these, in order.\<close>

fun created :: "response list \<Rightarrow> post list" where
  "created [] = []"
| "created (r # rs) =
     (case body r of
        JsonBody (Post p) \<Rightarrow> if status r = 201 then p # created rs else created rs
      | _ \<Rightarrow> created rs)"

section \<open>Routing and identifier lemmas\<close>

lemma js_split_nonempty: "js_split c s \<noteq> []"
  by (induction s) (auto split: list.splits)

lemma js_split_no_sep: "c \<notin> set s \<Longrightarrow> js_split c s = [s]"
  by (induction s) auto

lemma js_split_append: "js_split c (p @ c # s) = js_split c p @ js_split c s"
  by (induction p) (auto split: list.splits simp: js_split_nonempty)

lemma path_id_append: "CHR ''/'' \<notin> set k \<Longrightarrow> path_id (p @ CHR ''/'' # k) = k"
  by (simp add: path_id_def js_split_append js_split_nonempty js_split_no_sep)

lemma id_char_not_slash: "id_char c \<Longrightarrow> c \<noteq> CHR ''/''"
  by (auto simp: id_char_def)

lemma valid_id_no_slash: "valid_id k \<Longrightarrow> CHR ''/'' \<notin> set k"
  by (auto simp: valid_id_def list_all_iff dest: id_char_not_slash)

lemma post_path_id: "valid_id k \<Longrightarrow> path_id (''/api/posts/'' @ k) = k"
  using path_id_append [of k "''/api/posts''"] valid_id_no_slash [of k] by simp

lemma post_path_matches: "valid_id k \<Longrightarrow> post_path_match (''/api/posts/'' @ k)"
  by (simp add: post_path_match_def valid_id_def)

lemma strip_prefix_Some: "strip_prefix pre s = Some t \<longleftrightarrow> s = pre @ t"
  by (induction pre s rule: strip_prefix.induct) auto

lemma strip_prefix_case:
  "(case strip_prefix pre p of None \<Rightarrow> False | Some s \<Rightarrow> Q s) \<longleftrightarrow> (\<exists>k. Q k \<and> p = pre @ k)"
proof (cases "strip_prefix pre p")
  case None
  then have "\<And>k. p \<noteq> pre @ k" using strip_prefix_Some [of pre p] by auto
  with None show ?thesis by simp
next
  case (Some s)
  then have "p = pre @ s" by (simp add: strip_prefix_Some)
  with Some show ?thesis by auto
qed

lemma post_path_match_iff:
  "post_path_match p \<longleftrightarrow> (\<exists>k. valid_id k \<and> p = ''/api/posts/'' @ k)"
  unfolding post_path_match_def valid_id_def by (rule strip_prefix_case)

lemma post_path_not_list: "k \<noteq> [] \<Longrightarrow> ''/api/posts/'' @ k \<noteq> ''/api/posts''"
  by simp

lemma hex_digit_id_char: "id_char (hex_digit n)"
proof -
  have "n mod 16 < length ''0123456789abcdef''" by simp
  then have "hex_digit n \<in> set ''0123456789abcdef''"
    unfolding hex_digit_def by (rule nth_mem)
  then show ?thesis by (auto simp: id_char_def)
qed

lemma length_randomUUID: "length (randomUUID r) = 36"
  by (simp add: randomUUID_def hex_byte_def)

lemma valid_randomUUID: "valid_id (randomUUID r)"
  by (simp add: valid_id_def randomUUID_def hex_byte_def hex_digit_id_char) (simp add: id_char_def)



lemma findIndex_Some:
  "findIndex f xs = Some i \<Longrightarrow> i < length xs \<and> f (xs ! i) \<and> (\<forall>j<i. \<not> f (xs ! j))"
proof (induction xs arbitrary: i)
  case Nil
  then show ?case by simp
next
  case (Cons x xs)
  show ?case
  proof (cases "f x")
    case True
    with Cons.prems show ?thesis by simp
  next
    case False
    with Cons.prems obtain k where k: "findIndex f xs = Some k" "i = Suc k" by auto
    from Cons.IH [OF k(1)] False k(2) show ?thesis
      by (auto simp: nth_Cons split: nat.splits)
  qed
qed

lemma findIndex_None: "findIndex f xs = None \<longleftrightarrow> (\<forall>x\<in>set xs. \<not> f x)"
  by (induction xs) auto

lemma handler_cases:
  "(snd (handler e r ps) = ps \<and> status (fst (handler e r ps)) \<noteq> 201 \<and> \<not> creates r)
   \<or> (creates r \<and> (\<exists>np. handler e r ps = (json_response 201 (Post np), ps @ [np])
          \<and> post_id np = generateId e))
   \<or> (req_method r = ''PUT'' \<and> \<not> creates r \<and> (\<exists>i u. i < length ps \<and> post_id u = post_id (ps ! i)
          \<and> handler e r ps = (json_response 200 (Post u), ps[i := u])))
   \<or> (req_method r = ''DELETE'' \<and> \<not> creates r \<and> (\<exists>i. i < length ps
          \<and> handler e r ps = (json_response 200 (Deleted ''Post deleted successfully'' (ps ! i)),
                take i ps @ drop (Suc i) ps)))"
  unfolding handler_def creates_def json_response_def Let_def
  by (auto split: option.splits dest: findIndex_Some)


lemma create_rejects_falsy:
  assumes "req_method req = ''POST''" and "path req = ''/api/posts''"
    and "\<not> truthy (parseJsonBody req) \<or> \<not> truthy_opt (get_prop (parseJsonBody req) ''title'')
         \<or> \<not> truthy_opt (get_prop (parseJsonBody req) ''content'')"
  shows "handler e req ps = (json_response 400 (Error ''Title and content are required''), ps)"
  using assms unfolding handler_def Let_def by auto

lemma create_accepts:
  assumes "creates req"
  shows "handler e req ps =
    (json_response 201 (Post
       \<lparr>post_id = generateId e,
        title = the (get_prop (parseJsonBody req) ''title''),
        content = the (get_prop (parseJsonBody req) ''content''),
        author = or_else (get_prop (parseJsonBody req) ''author'') (JStr ''Anonymous''),
        createdAt = now e, updatedAt = None\<rparr>),
     ps @ [\<lparr>post_id = generateId e,
        title = the (get_prop (parseJsonBody req) ''title''),
        content = the (get_prop (parseJsonBody req) ''content''),
        author = or_else (get_prop (parseJsonBody req) ''author'') (JStr ''Anonymous''),
        createdAt = now e, updatedAt = None\<rparr>])"
  using assms unfolding handler_def creates_def Let_def by auto

lemma handler_put:
  assumes "req_method req = ''PUT''" and "path req = ''/api/posts/'' @ k" and "valid_id k"
  shows "handler e req ps =
    (case findIndex (\<lambda>p. post_id p = k) ps of
       None \<Rightarrow> (json_response 404 (Error ''Post not found''), ps)
     | Some i \<Rightarrow>
         if \<not> truthy (parseJsonBody req) then
           (json_response 400 (Error ''Invalid request body''), ps)
         else
           (json_response 200 (Post ((ps ! i)
              \<lparr>title := or_else (get_prop (parseJsonBody req) ''title'') (title (ps ! i)),
               content := or_else (get_prop (parseJsonBody req) ''content'') (content (ps ! i)),
               author := or_else (get_prop (parseJsonBody req) ''author'') (author (ps ! i)),
               updatedAt := Some (now e)\<rparr>)),
            ps[i := (ps ! i)
              \<lparr>title := or_else (get_prop (parseJsonBody req) ''title'') (title (ps ! i)),
               content := or_else (get_prop (parseJsonBody req) ''content'') (content (ps ! i)),
               author := or_else (get_prop (parseJsonBody req) ''author'') (author (ps ! i)),
               updatedAt := Some (now e)\<rparr>]))"
proof -
  have k: "k \<noteq> []" using assms(3) by (simp add: valid_id_def)
  have m: "post_path_match (path req)" "path_id (path req) = k"
    using assms(2,3) by (simp_all only: post_path_matches post_path_id)
  have n: "path req \<noteq> ''/api/posts''" using assms(2) k by simp
  show ?thesis
    unfolding handler_def Let_def using assms(1) m n
    by (simp split: option.splits)
qed

lemma handler_get:
  assumes "req_method req = ''GET''" and "path req = ''/api/posts/'' @ k" and "valid_id k"
  shows "handler e req ps =
    (case find (\<lambda>p. post_id p = k) ps of
       None \<Rightarrow> (json_response 404 (Error ''Post not found''), ps)
     | Some p \<Rightarrow> (json_response 200 (Post p), ps))"
proof -
  have k: "k \<noteq> []" using assms(3) by (simp add: valid_id_def)
  have m: "post_path_match (path req)" "path_id (path req) = k"
    using assms(2,3) by (simp_all only: post_path_matches post_path_id)
  have n: "path req \<noteq> ''/api/posts''" using assms(2) k by simp
  show ?thesis
    unfolding handler_def Let_def using assms(1) m n by simp
qed

lemma handler_delete:
  assumes "req_method req = ''DELETE''" and "path req = ''/api/posts/'' @ k" and "valid_id k"
  shows "handler e req ps =
    (case findIndex (\<lambda>p. post_id p = k) ps of
       None \<Rightarrow> (json_response 404 (Error ''Post not found''), ps)
     | Some i \<Rightarrow>
         (json_response 200 (Deleted ''Post deleted successfully'' (ps ! i)),
          take i ps @ drop (Suc i) ps))"
proof -
  have k: "k \<noteq> []" using assms(3) by (simp add: valid_id_def)
  have m: "post_path_match (path req)" "path_id (path req) = k"
    using assms(2,3) by (simp_all only: post_path_matches post_path_id)
  have n: "path req \<noteq> ''/api/posts''" using assms(2) k by simp
  show ?thesis
    unfolding handler_def Let_def using assms(1) m n by simp
qed

lemma update_empty_author_kept:
  assumes "req_method req = ''PUT''" and "path req = ''/api/posts/'' @ k" and "valid_id k"
    and "findIndex (\<lambda>p. post_id p = k) ps = Some i"
    and "req_json req = Some (JObj [(''author'', JStr [])])"
  shows "handler e req ps =
      (json_response 200 (Post ((ps ! i)\<lparr>updatedAt := Some (now e)\<rparr>)),
       ps[i := (ps ! i)\<lparr>updatedAt := Some (now e)\<rparr>])"
proof -
  have b: "parseJsonBody req = JObj [(''author'', JStr [])]"
    using assms(5) by (simp add: parseJsonBody_def)
  from handler_put [OF assms(1-3), of e ps] assms(4) b show ?thesis
    by (simp add: or_else_def)
qed

lemma home_not_post_path: "\<not> post_path_match ''/''"
  by (simp add: post_path_match_def)

lemma handler_headers:
  "headers (fst (handler e req ps)) =
     (if req_method req \<noteq> ''OPTIONS'' \<and> path req = ''/'' then [(''content-type'', ''text/html'')]
      else cors_headers)"
  unfolding handler_def Let_def json_response_def
  by (auto simp: home_not_post_path split: option.splits)

lemma handler_html:
  "body (fst (handler e req ps)) = HtmlBody \<longleftrightarrow> req_method req \<noteq> ''OPTIONS'' \<and> path req = ''/''"
  unfolding handler_def Let_def json_response_def
  by (auto simp: home_not_post_path split: option.splits)

lemma take_drop_ids:
  assumes "distinct (map f xs)" and "i < length xs"
  shows "distinct (map f (take i xs @ drop (Suc i) xs))"
    and "f (xs ! i) \<notin> f ` set (take i xs @ drop (Suc i) xs)"
    and "set (take i xs @ drop (Suc i) xs) \<subseteq> set xs"
proof -
  have "xs = take i xs @ xs ! i # drop (Suc i) xs"
    using assms(2) by (rule id_take_nth_drop)
  then have "distinct (map f (take i xs @ xs ! i # drop (Suc i) xs))"
    using assms(1) by simp
  then show "distinct (map f (take i xs @ drop (Suc i) xs))"
    and "f (xs ! i) \<notin> f ` set (take i xs @ drop (Suc i) xs)"
    by auto
  show "set (take i xs @ drop (Suc i) xs) \<subseteq> set xs"
    by (auto dest: in_set_takeD in_set_dropD)
qed

lemma update_same_key:
  assumes "i < length xs" and "f u = f (xs ! i)"
  shows "map f (xs[i := u]) = map f xs"
  using assms by (simp add: map_update list_update_same_conv)

lemma handler_ids:
  assumes "distinct (map post_id ps)" and "creates r \<longrightarrow> generateId e \<notin> post_id ` set ps"
  shows "distinct (map post_id (snd (handler e r ps)))"
    and "post_id ` set (snd (handler e r ps)) \<subseteq>
           post_id ` set ps \<union> (if creates r then {generateId e} else {})"
proof -
  have "distinct (map post_id (snd (handler e r ps))) \<and>
        post_id ` set (snd (handler e r ps)) \<subseteq>
           post_id ` set ps \<union> (if creates r then {generateId e} else {})"
    using handler_cases [of e r ps]
  proof (elim disjE conjE exE)
    assume "snd (handler e r ps) = ps"
    with assms(1) show ?thesis by auto
  next
    fix np
    assume "creates r" "handler e r ps = (json_response 201 (Post np), ps @ [np])"
      "post_id np = generateId e"
    with assms show ?thesis by auto
  next
    fix i u
    assume "i < length ps" "post_id u = post_id (ps ! i)"
      "handler e r ps = (json_response 200 (Post u), ps[i := u])"
    then have "snd (handler e r ps) = ps[i := u]" "map post_id (ps[i := u]) = map post_id ps"
      by (simp_all add: update_same_key)
    then have "map post_id (snd (handler e r ps)) = map post_id ps" by simp
    then have "distinct (map post_id (snd (handler e r ps)))"
      "set (map post_id (snd (handler e r ps))) = set (map post_id ps)"
      using assms(1) by simp_all
    then show ?thesis by auto
  next
    fix i
    assume i: "i < length ps"
      and h: "handler e r ps =
        (json_response 200 (Deleted ''Post deleted successfully'' (ps ! i)),
         take i ps @ drop (Suc i) ps)"
    from h have s: "snd (handler e r ps) = take i ps @ drop (Suc i) ps" by simp
    from take_drop_ids(1,3) [OF assms(1) i] show ?thesis
      unfolding s by auto
  qed
  then show "distinct (map post_id (snd (handler e r ps)))"
    and "post_id ` set (snd (handler e r ps)) \<subseteq>
           post_id ` set ps \<union> (if creates r then {generateId e} else {})"
    by simp_all
qed

lemma disjoint_step:
  "A' \<subseteq> B \<Longrightarrow> B \<inter> D = {} \<Longrightarrow> A' \<inter> D = {}"
  by blast

lemma subset_step:
  "S \<subseteq> A' \<union> D \<Longrightarrow> A' \<union> D \<subseteq> T \<Longrightarrow> S \<subseteq> T"
  by blast

lemma serve_ids:
  assumes "distinct (map post_id ps)" and "post_id ` set ps \<inter> set (draws evs) = {}"
    and "distinct (draws evs)"
  shows "distinct (map post_id (snd (serve evs ps))) \<and>
         post_id ` set (snd (serve evs ps)) \<subseteq> post_id ` set ps \<union> set (draws evs)"
  using assms
proof (induction evs arbitrary: ps)
  case Nil
  then show ?case by simp
next
  case (Cons x evs)
  obtain e r where x: "x = (e, r)" by (cases x)
  let ?ps = "snd (handler e r ps)"
  have fresh: "creates r \<longrightarrow> generateId e \<notin> post_id ` set ps"
    using Cons.prems(2) x by auto
  note h = handler_ids [OF Cons.prems(1) fresh]
  have d: "distinct (draws evs)" using Cons.prems(3) x by (simp split: if_splits)
  have disj: "post_id ` set ?ps \<inter> set (draws evs) = {}"
  proof (cases "creates r")
    case True
    then have dr: "draws (x # evs) = generateId e # draws evs" using x by simp
    have "insert (generateId e) (post_id ` set ps) \<inter> set (draws evs) = {}"
      using Cons.prems(2,3) unfolding dr by auto
    moreover from h(2) True have "post_id ` set ?ps \<subseteq> insert (generateId e) (post_id ` set ps)"
      by simp
    ultimately show ?thesis by (rule disjoint_step [rotated])
  next
    case False
    then have dr: "draws (x # evs) = draws evs" using x by simp
    have "post_id ` set ps \<inter> set (draws evs) = {}"
      using Cons.prems(2) unfolding dr .
    moreover from h(2) False have "post_id ` set ?ps \<subseteq> post_id ` set ps" by simp
    ultimately show ?thesis by (rule disjoint_step [rotated])
  qed
  have s: "snd (serve (x # evs) ps) = snd (serve evs ?ps)"
    unfolding x by (simp split: prod.splits)
  have "post_id ` set ?ps \<union> set (draws evs) \<subseteq> post_id ` set ps \<union> set (draws (x # evs))"
  proof (cases "creates r")
    case True
    then have dr: "draws (x # evs) = generateId e # draws evs" using x by simp
    from h(2) True have "post_id ` set ?ps \<subseteq> insert (generateId e) (post_id ` set ps)"
      by simp
    then show ?thesis unfolding dr by auto
  next
    case False
    then have dr: "draws (x # evs) = draws evs" using x by simp
    from h(2) False have "post_id ` set ?ps \<subseteq> post_id ` set ps" by simp
    then show ?thesis unfolding dr by auto
  qed
  then have sub: "post_id ` set ?ps \<union> set (draws evs) \<subseteq> post_id ` set ps \<union> set (draws (x # evs))" .
  from Cons.IH [OF h(1) disj d]
  have ih1: "distinct (map post_id (snd (serve evs ?ps)))"
    and ih2: "post_id ` set (snd (serve evs ?ps)) \<subseteq> post_id ` set ?ps \<union> set (draws evs)"
    by simp_all
  from ih2 sub have "post_id ` set (snd (serve evs ?ps)) \<subseteq> post_id ` set ps \<union> set (draws (x # evs))"
    by (rule subset_step)
  with ih1 show ?case unfolding s by simp
qed

lemma draws_valid: "x \<in> set (draws evs) \<Longrightarrow> valid_id x \<and> length x = 36"
proof (induction evs)
  case Nil
  then show ?case by simp
next
  case (Cons y evs)
  obtain e r where y: "y = (e, r)" by (cases y)
  from Cons y show ?case
    by (auto simp: generateId_def valid_randomUUID length_randomUUID split: if_splits)
qed

lemma draws_append: "draws (evs @ evs') = draws evs @ draws evs'"
  by (induction evs) (auto split: prod.splits)

lemma seed_ids: "map post_id posts = [''1'', ''2'']"
  by (simp add: posts_def)

lemma valid_seed_ids: "valid_id ''1''" "valid_id ''2''"
  by (simp_all add: valid_id_def id_char_def)

lemma reachable_store:
  assumes "distinct (draws evs)"
  shows "distinct (map post_id (snd (serve evs posts)))"
    and "post_id ` set (snd (serve evs posts)) \<subseteq> {''1'', ''2''} \<union> set (draws evs)"
proof -
  have s: "post_id ` set posts = {''1'', ''2''}"
    using seed_ids by (metis list.set_map list.simps(15) empty_set)
  have "{''1'', ''2''} \<inter> set (draws evs) = {}"
    using draws_valid [of _ evs] by fastforce
  then have "post_id ` set posts \<inter> set (draws evs) = {}" unfolding s .
  moreover have "distinct (map post_id posts)" by (simp add: seed_ids)
  ultimately have "distinct (map post_id (snd (serve evs posts))) \<and>
         post_id ` set (snd (serve evs posts)) \<subseteq> post_id ` set posts \<union> set (draws evs)"
    using assms by (intro serve_ids)
  then show "distinct (map post_id (snd (serve evs posts)))"
    and "post_id ` set (snd (serve evs posts)) \<subseteq> {''1'', ''2''} \<union> set (draws evs)"
    unfolding s by simp_all
qed

lemma reachable_valid:
  assumes "distinct (draws evs)" and "k \<in> post_id ` set (snd (serve evs posts))"
  shows "valid_id k"
proof -
  from reachable_store(2) [OF assms(1)] assms(2)
  have "k = ''1'' \<or> k = ''2'' \<or> k \<in> set (draws evs)" by blast
  then show ?thesis using valid_seed_ids draws_valid [of k evs] by blast
qed

lemma find_snoc_fresh:
  "\<forall>q\<in>set xs. \<not> P q \<Longrightarrow> P p \<Longrightarrow> find P (xs @ [p]) = Some p"
  by (induction xs) auto

lemma find_absent: "\<forall>q\<in>set xs. \<not> P q \<Longrightarrow> find P xs = None"
  by (induction xs) auto

lemma findIndex_present: "\<exists>x\<in>set xs. f x \<Longrightarrow> \<exists>i. findIndex f xs = Some i"
  using findIndex_None [of f xs] by (cases "findIndex f xs") auto

lemma status_201_creates:
  assumes "status (fst (handler e r ps)) = 201"
  shows "creates r"
  using handler_cases [of e r ps] assms by (auto simp: json_response_def)

lemma created_Cons: "created (r # rs) = created [r] @ created rs"
  by (simp split: resp_body.splits payload.splits)

lemma created_not_201: "status r \<noteq> 201 \<Longrightarrow> created [r] = []"
  by (simp split: resp_body.splits payload.splits)

lemma serve_Cons:
  "fst (serve ((e, r) # rest) ps) = fst (handler e r ps) # fst (serve rest (snd (handler e r ps)))"
  "snd (serve ((e, r) # rest) ps) = snd (serve rest (snd (handler e r ps)))"
  by (simp_all split: prod.splits)

lemma handler_created:
  assumes "req_method r \<noteq> ''DELETE''"
  shows "map post_id (snd (handler e r ps)) =
           map post_id ps @ map post_id (created [fst (handler e r ps)])"
    and "length (snd (handler e r ps)) = length ps + length (created [fst (handler e r ps)])"
    and "req_method r \<noteq> ''PUT'' \<Longrightarrow> snd (handler e r ps) = ps @ created [fst (handler e r ps)]"
proof -
  have "map post_id (snd (handler e r ps)) =
           map post_id ps @ map post_id (created [fst (handler e r ps)])
      \<and> length (snd (handler e r ps)) = length ps + length (created [fst (handler e r ps)])
      \<and> (req_method r \<noteq> ''PUT'' \<longrightarrow> snd (handler e r ps) = ps @ created [fst (handler e r ps)])"
    using handler_cases [of e r ps]
  proof (elim disjE conjE exE)
    assume "snd (handler e r ps) = ps" "status (fst (handler e r ps)) \<noteq> 201"
    then show ?thesis by (simp add: created_not_201 del: created.simps)
  next
    fix np
    assume h: "handler e r ps = (json_response 201 (Post np), ps @ [np])"
    have "created [json_response 201 (Post np)] = [np]" by (simp add: json_response_def)
    with h show ?thesis by (simp del: created.simps)
  next
    fix i u
    assume h: "req_method r = ''PUT''" "i < length ps" "post_id u = post_id (ps ! i)"
      "handler e r ps = (json_response 200 (Post u), ps[i := u])"
    have "created [json_response 200 (Post u)] = []" by (simp add: json_response_def)
    with h show ?thesis by (simp add: update_same_key del: created.simps)
  next
    assume "req_method r = ''DELETE''"
    with assms show ?thesis by simp
  qed
  then show "map post_id (snd (handler e r ps)) =
           map post_id ps @ map post_id (created [fst (handler e r ps)])"
    and "length (snd (handler e r ps)) = length ps + length (created [fst (handler e r ps)])"
    and "req_method r \<noteq> ''PUT'' \<Longrightarrow> snd (handler e r ps) = ps @ created [fst (handler e r ps)]"
    by simp_all
qed

lemma serve_created_ids:
  assumes "list_all (\<lambda>(e, r). req_method r \<noteq> ''DELETE'') evs"
  shows "map post_id (snd (serve evs ps)) =
           map post_id ps @ map post_id (created (fst (serve evs ps)))"
  using assms
proof (induction evs arbitrary: ps)
  case Nil
  then show ?case by simp
next
  case (Cons x evs)
  obtain e r where x: "x = (e, r)" by (cases x)
  from Cons.prems x have nd: "req_method r \<noteq> ''DELETE''"
    and rest: "list_all (\<lambda>(e, r). req_method r \<noteq> ''DELETE'') evs" by simp_all
  have "map post_id (snd (serve (x # evs) ps)) =
          map post_id (snd (handler e r ps)) @
          map post_id (created (fst (serve evs (snd (handler e r ps)))))"
    unfolding x serve_Cons using Cons.IH [OF rest] .
  also have "\<dots> = map post_id ps @ map post_id (created [fst (handler e r ps)]) @
          map post_id (created (fst (serve evs (snd (handler e r ps)))))"
    using handler_created(1) [OF nd, of e ps] by (simp del: created.simps)
  also have "\<dots> = map post_id ps @ map post_id (created (fst (serve (x # evs) ps)))"
    unfolding x serve_Cons
    by (simp only: created_Cons [of "fst (handler e r ps)" "fst (serve evs (snd (handler e r ps)))"]
        map_append)
  finally show ?case .
qed

lemma serve_created:
  assumes "list_all (\<lambda>(e, r). req_method r \<noteq> ''DELETE'' \<and> req_method r \<noteq> ''PUT'') evs"
  shows "snd (serve evs ps) = ps @ created (fst (serve evs ps))"
  using assms
proof (induction evs arbitrary: ps)
  case Nil
  then show ?case by simp
next
  case (Cons x evs)
  obtain e r where x: "x = (e, r)" by (cases x)
  from Cons.prems x have nd: "req_method r \<noteq> ''DELETE''" "req_method r \<noteq> ''PUT''"
    and rest: "list_all (\<lambda>(e, r). req_method r \<noteq> ''DELETE'' \<and> req_method r \<noteq> ''PUT'') evs"
    by simp_all
  have "snd (serve (x # evs) ps) =
          snd (handler e r ps) @ created (fst (serve evs (snd (handler e r ps))))"
    unfolding x serve_Cons using Cons.IH [OF rest] .
  also have "\<dots> = ps @ created [fst (handler e r ps)] @
          created (fst (serve evs (snd (handler e r ps))))"
    using handler_created(3) [OF nd, of e ps] by (simp del: created.simps)
  also have "\<dots> = ps @ created (fst (serve (x # evs) ps))"
    unfolding x serve_Cons
    by (simp only: created_Cons [of "fst (handler e r ps)" "fst (serve evs (snd (handler e r ps)))"]
        map_append)
  finally show ?case .
qed

lemma handler_list:
  assumes "req_method g = ''GET''" and "path g = ''/api/posts''"
  shows "handler e g ps = (json_response 200 (Posts ps), ps)"
  using assms by (simp add: handler_def)

lemma hex_digit_eq: "hex_digit n = hex_digit m \<longleftrightarrow> n mod 16 = m mod 16"
proof -
  have d: "distinct ''0123456789abcdef''" by simp
  have "n mod 16 < length ''0123456789abcdef''" "m mod 16 < length ''0123456789abcdef''"
    by simp_all
  with d show ?thesis unfolding hex_digit_def by (rule nth_eq_iff_index_eq)
qed

lemma hex_byte_eq:
  assumes "b < 256" and "b' < 256"
  shows "hex_byte b = hex_byte b' \<longleftrightarrow> b = b'"
proof
  assume "hex_byte b = hex_byte b'"
  then have h: "(b div 16) mod 16 = (b' div 16) mod 16" "b mod 16 = b' mod 16"
    by (simp_all add: hex_byte_def hex_digit_eq)
  from assms have "b div 16 < 16" "b' div 16 < 16" by simp_all
  with h(1) have "b div 16 = b' div 16" by simp
  with h(2) show "b = b'" by (metis div_mult_mod_eq)
next
  assume "b = b'"
  then show "hex_byte b = hex_byte b'" by simp
qed

lemma hex_byte_append_eq:
  "hex_byte a @ xs = hex_byte b @ ys \<longleftrightarrow> hex_byte a = hex_byte b \<and> xs = ys"
  by (simp add: hex_byte_def)

lemma byte_at_less: "byte_at r i < 256"
  by (simp add: byte_at_def)

lemma randomUUID_eq: "randomUUID r = randomUUID r' \<longleftrightarrow> uuid_bits r = uuid_bits r'"
proof -
  have v: "64 + byte_at r 6 mod 16 < 256" "64 + byte_at r' 6 mod 16 < 256"
    "128 + byte_at r 8 mod 64 < 256" "128 + byte_at r' 8 mod 64 < 256"
    by (simp_all add: less_imp_le_nat trans_less_add2)
  show ?thesis
    unfolding randomUUID_def uuid_bits_def
    by (simp add: hex_byte_append_eq hex_byte_eq byte_at_less v)
qed

lemma distinct_uuids:
  "distinct (map uuid_bits rs) \<Longrightarrow> distinct (map randomUUID rs)"
proof (induction rs)
  case Nil
  then show ?case by simp
next
  case (Cons r rs)
  have "randomUUID r \<notin> randomUUID ` set rs"
  proof
    assume "randomUUID r \<in> randomUUID ` set rs"
    then obtain r' where "r' \<in> set rs" "randomUUID r = randomUUID r'" by auto
    then have "uuid_bits r \<in> uuid_bits ` set rs" by (auto simp: randomUUID_eq)
    with Cons.prems show False by simp
  qed
  with Cons show ?case by simp
qed

lemma draws_entropies: "draws evs = map randomUUID (entropies evs)"
  by (induction evs) (auto simp: generateId_def)

lemma distinct_draws:
  "distinct (map uuid_bits (entropies evs)) \<Longrightarrow> distinct (draws evs)"
  unfolding draws_entropies by (rule distinct_uuids)

section \<open>Properties of the blog API\<close>

text \<open>
  Claim C8. A request with method \<open>OPTIONS\<close> is answered with status 200, no body and
  the four CORS headers, whatever its path, its body and the store are; the store is
  returned as it was.
\<close>

theorem options_preflight:
  assumes "req_method req = ''OPTIONS''"
  shows "handler e req ps =
    (\<lparr>status = 200,
      headers = [(''content-type'', ''application/json''),
                 (''Access-Control-Allow-Origin'', ''*''),
                 (''Access-Control-Allow-Methods'', ''GET, POST, PUT, DELETE, OPTIONS''),
                 (''Access-Control-Allow-Headers'', ''Content-Type'')],
      body = NoBody\<rparr>, ps)"
  using assms by (simp add: handler_def cors_headers_def jsonHeaders_def)

theorem options_preflight_witness:
  "req_method \<lparr>req_method = ''OPTIONS'', path = ''/api/posts/1'', req_json = None\<rparr> = ''OPTIONS'' \<and>
   handler \<lparr>entropy = 7, now = ''2025-06-01T12:00:00.000Z'', local_time = [], deployment_id = None\<rparr>
     \<lparr>req_method = ''OPTIONS'', path = ''/api/posts/1'', req_json = None\<rparr> posts =
    (\<lparr>status = 200,
      headers = [(''content-type'', ''application/json''),
                 (''Access-Control-Allow-Origin'', ''*''),
                 (''Access-Control-Allow-Methods'', ''GET, POST, PUT, DELETE, OPTIONS''),
                 (''Access-Control-Allow-Headers'', ''Content-Type'')],
      body = NoBody\<rparr>, posts)"
  using options_preflight [of "\<lparr>req_method = ''OPTIONS'', path = ''/api/posts/1'', req_json = None\<rparr>"
      "\<lparr>entropy = 7, now = ''2025-06-01T12:00:00.000Z'', local_time = [], deployment_id = None\<rparr>" posts]
  by simp

text \<open>
  Claim C4. A \<open>POST /api/posts\<close> whose body does not parse, or parses but has a missing
  or empty title or a missing or empty content, is answered with status 400 and the
  error \<open>Title and content are required\<close>, and the store is the same list as before.
\<close>

theorem create_invalid_rejected:
  assumes "req_method req = ''POST''" and "path req = ''/api/posts''"
    and "req_json req = None \<or>
         (\<exists>b. req_json req = Some b \<and>
            (get_prop b ''title'' = None \<or> get_prop b ''title'' = Some (JStr []) \<or>
             get_prop b ''content'' = None \<or> get_prop b ''content'' = Some (JStr [])))"
  shows "handler e req ps =
    (\<lparr>status = 400, headers = cors_headers,
      body = JsonBody (Error ''Title and content are required'')\<rparr>, ps)"
proof -
  have "\<not> truthy (parseJsonBody req) \<or> \<not> truthy_opt (get_prop (parseJsonBody req) ''title'')
        \<or> \<not> truthy_opt (get_prop (parseJsonBody req) ''content'')"
    using assms(3) by (auto simp: parseJsonBody_def)
  from create_rejects_falsy [OF assms(1,2) this] show ?thesis
    by (simp add: json_response_def)
qed

theorem create_invalid_rejected_witness:
  "handler \<lparr>entropy = 7, now = ''2025-06-01T12:00:00.000Z'', local_time = [], deployment_id = None\<rparr>
     \<lparr>req_method = ''POST'', path = ''/api/posts'',
      req_json = Some (JObj [(''title'', JStr []), (''content'', JStr ''World'')])\<rparr> posts =
    (\<lparr>status = 400, headers = cors_headers,
      body = JsonBody (Error ''Title and content are required'')\<rparr>, posts)"
  using create_invalid_rejected [of
      "\<lparr>req_method = ''POST'', path = ''/api/posts'',
        req_json = Some (JObj [(''title'', JStr []), (''content'', JStr ''World'')])\<rparr>"
      "\<lparr>entropy = 7, now = ''2025-06-01T12:00:00.000Z'', local_time = [], deployment_id = None\<rparr>" posts]
  by simp

text \<open>
  Claim C10. A \<open>POST /api/posts\<close> with truthy title and content whose author is
  supplied but falsy (the empty string, \<open>null\<close>, \<open>false\<close>, \<open>0\<close>) creates a post whose
  author is \<open>Anonymous\<close>.
\<close>

theorem create_falsy_author_defaults:
  assumes "req_method req = ''POST''" and "path req = ''/api/posts''"
    and "req_json req = Some b"
    and "get_prop b ''title'' = Some t" and "truthy t"
    and "get_prop b ''content'' = Some c" and "truthy c"
    and "get_prop b ''author'' = Some a" and "\<not> truthy a"
  shows "handler e req ps =
    (\<lparr>status = 201, headers = cors_headers,
      body = JsonBody (Post \<lparr>post_id = generateId e, title = t, content = c,
               author = JStr ''Anonymous'', createdAt = now e, updatedAt = None\<rparr>)\<rparr>,
     ps @ [\<lparr>post_id = generateId e, title = t, content = c,
            author = JStr ''Anonymous'', createdAt = now e, updatedAt = None\<rparr>])"
proof -
  have b: "parseJsonBody req = b" using assms(3) by (simp add: parseJsonBody_def)
  have "truthy b" using assms(4) by (cases b) simp_all
  then have "creates req" using assms b by (simp add: creates_def)
  from create_accepts [OF this, of e ps] show ?thesis
    using assms b by (simp add: json_response_def or_else_def)
qed

theorem create_falsy_author_defaults_witness:
  "handler \<lparr>entropy = 0, now = ''2025-06-01T12:00:00.000Z'', local_time = [], deployment_id = None\<rparr>
     \<lparr>req_method = ''POST'', path = ''/api/posts'',
      req_json = Some (JObj [(''title'', JStr ''Hi''), (''content'', JStr ''World''),
                             (''author'', JStr [])])\<rparr> posts =
    (\<lparr>status = 201, headers = cors_headers,
      body = JsonBody (Post \<lparr>post_id = ''00000000-0000-4000-8000-000000000000'',
               title = JStr ''Hi'', content = JStr ''World'',
               author = JStr ''Anonymous'', createdAt = ''2025-06-01T12:00:00.000Z'',
               updatedAt = None\<rparr>)\<rparr>,
     posts @ [\<lparr>post_id = ''00000000-0000-4000-8000-000000000000'',
               title = JStr ''Hi'', content = JStr ''World'',
               author = JStr ''Anonymous'', createdAt = ''2025-06-01T12:00:00.000Z'',
               updatedAt = None\<rparr>])"
proof -
  have u: "randomUUID 0 = ''00000000-0000-4000-8000-000000000000''"
    by (simp add: randomUUID_def hex_byte_def hex_digit_def byte_at_def)
  show ?thesis
    using create_falsy_author_defaults [of
      "\<lparr>req_method = ''POST'', path = ''/api/posts'',
        req_json = Some (JObj [(''title'', JStr ''Hi''), (''content'', JStr ''World''),
                               (''author'', JStr [])])\<rparr>"
      "JObj [(''title'', JStr ''Hi''), (''content'', JStr ''World''), (''author'', JStr [])]"
      "JStr ''Hi''" "JStr ''World''" "JStr []"
      "\<lparr>entropy = 0, now = ''2025-06-01T12:00:00.000Z'', local_time = [], deployment_id = None\<rparr>" posts]
    by (simp add: generateId_def u)
qed

text \<open>
  Claim C1. A \<open>PUT /api/posts/{id}\<close> for a stored post whose body is the object
  \<open>{author: x}\<close>, with \<open>x\<close> a name such as \<open>X\<close>, answers 200 with the prior record in
  which only \<open>author\<close> (now \<open>x\<close>) and \<open>updatedAt\<close> (now the current time) are replaced;
  \<open>title\<close>, \<open>content\<close>, \<open>createdAt\<close> and \<open>id\<close> are those of the prior record, and the
  store holds the new record at the same position.
\<close>

theorem update_author_only:
  assumes "req_method req = ''PUT''" and "path req = ''/api/posts/'' @ k" and "valid_id k"
    and "findIndex (\<lambda>p. post_id p = k) ps = Some i"
    and "req_json req = Some (JObj [(''author'', JStr x)])" and "x \<noteq> []"
  shows "i < length ps \<and> post_id (ps ! i) = k \<and>
    handler e req ps =
      (\<lparr>status = 200, headers = cors_headers,
        body = JsonBody (Post ((ps ! i)\<lparr>author := JStr x, updatedAt := Some (now e)\<rparr>))\<rparr>,
       ps[i := (ps ! i)\<lparr>author := JStr x, updatedAt := Some (now e)\<rparr>])"
proof -
  have b: "parseJsonBody req = JObj [(''author'', JStr x)]"
    using assms(5) by (simp add: parseJsonBody_def)
  from findIndex_Some [OF assms(4)] have i: "i < length ps" "post_id (ps ! i) = k" by simp_all
  from handler_put [OF assms(1-3), of e ps] assms(4,6) b i show ?thesis
    by (simp add: or_else_def json_response_def)
qed

theorem update_author_only_witness:
  "handler \<lparr>entropy = 0, now = ''2025-06-01T12:00:00.000Z'', local_time = [], deployment_id = None\<rparr>
     \<lparr>req_method = ''PUT'', path = ''/api/posts/2'',
      req_json = Some (JObj [(''author'', JStr ''X'')])\<rparr> posts =
    (\<lparr>status = 200, headers = cors_headers,
      body = JsonBody (Post
        \<lparr>post_id = ''2'',
         title = JStr ''Working with Deno KV'',
         content = JStr ''Deno KV provides a simple key-value storage solution...'',
         author = JStr ''X'',
         createdAt = ''2025-05-02T14:30:00Z'',
         updatedAt = Some ''2025-06-01T12:00:00.000Z''\<rparr>)\<rparr>,
     [\<lparr>post_id = ''1'',
       title = JStr ''Introduction to Deno Deploy'',
       content = JStr ''Deno Deploy is a distributed hosting service for Deno applications...'',
       author = JStr ''Deno User'',
       createdAt = ''2025-05-01T10:00:00Z'',
       updatedAt = None\<rparr>,
      \<lparr>post_id = ''2'',
       title = JStr ''Working with Deno KV'',
       content = JStr ''Deno KV provides a simple key-value storage solution...'',
       author = JStr ''X'',
       createdAt = ''2025-05-02T14:30:00Z'',
       updatedAt = Some ''2025-06-01T12:00:00.000Z''\<rparr>])"
proof -
  have v: "valid_id ''2''" by (simp add: valid_id_def id_char_def)
  have f: "findIndex (\<lambda>p. post_id p = ''2'') posts = Some 1" by (simp add: posts_def)
  show ?thesis
    using update_author_only [of
      "\<lparr>req_method = ''PUT'', path = ''/api/posts/2'',
        req_json = Some (JObj [(''author'', JStr ''X'')])\<rparr>" "''2''" posts 1 "''X''"
      "\<lparr>entropy = 0, now = ''2025-06-01T12:00:00.000Z'', local_time = [], deployment_id = None\<rparr>"]
      v f
    by (simp add: posts_def)
qed

text \<open>
  Claim C2 as stated fails: the body \<open>null\<close> parses as JSON, the post exists, and the
  answer is 400 \<open>Invalid request body\<close>.
\<close>

theorem update_null_body_counterexample:
  "req_json \<lparr>req_method = ''PUT'', path = ''/api/posts/1'', req_json = Some JNull\<rparr> = Some JNull \<and>
   findIndex (\<lambda>p. post_id p = ''1'') posts = Some 0 \<and>
   handler \<lparr>entropy = 0, now = ''2025-06-01T12:00:00.000Z'', local_time = [], deployment_id = None\<rparr>
     \<lparr>req_method = ''PUT'', path = ''/api/posts/1'', req_json = Some JNull\<rparr> posts =
    (\<lparr>status = 400, headers = cors_headers,
      body = JsonBody (Error ''Invalid request body'')\<rparr>, posts)"
proof -
  have v: "valid_id ''1''" by (simp add: valid_id_def id_char_def)
  have f: "findIndex (\<lambda>p. post_id p = ''1'') posts = Some 0" by (simp add: posts_def)
  show ?thesis
    using handler_put [of
      "\<lparr>req_method = ''PUT'', path = ''/api/posts/1'', req_json = Some JNull\<rparr>" "''1''"
      "\<lparr>entropy = 0, now = ''2025-06-01T12:00:00.000Z'', local_time = [], deployment_id = None\<rparr>"
      posts] v f
    by (simp add: parseJsonBody_def json_response_def)
qed

text \<open>
  Claim C2, amended. For a \<open>PUT /api/posts/{id}\<close> whose id is in the store, the answer
  is 400 with \<open>Invalid request body\<close> and an unchanged store exactly when the body does
  not parse or parses to a falsy value (\<open>null\<close>, \<open>false\<close>, \<open>0\<close>, the empty string); it
  is 200 exactly when the body parses to a truthy value, the empty object included.
\<close>

theorem update_body_check:
  assumes "req_method req = ''PUT''" and "path req = ''/api/posts/'' @ k" and "valid_id k"
    and "findIndex (\<lambda>p. post_id p = k) ps = Some i"
  shows "(status (fst (handler e req ps)) = 400 \<longleftrightarrow>
            req_json req = None \<or> (\<exists>v. req_json req = Some v \<and> \<not> truthy v))
       \<and> (status (fst (handler e req ps)) = 400 \<longrightarrow>
            handler e req ps =
              (\<lparr>status = 400, headers = cors_headers,
                body = JsonBody (Error ''Invalid request body'')\<rparr>, ps))
       \<and> (status (fst (handler e req ps)) = 200 \<longleftrightarrow>
            (\<exists>v. req_json req = Some v \<and> truthy v))"
proof (cases "req_json req")
  case None
  then have "\<not> truthy (parseJsonBody req)" by (simp add: parseJsonBody_def)
  with handler_put [OF assms(1-3), of e ps] assms(4) None show ?thesis
    by (simp add: json_response_def)
next
  case (Some v)
  then have "parseJsonBody req = v" by (simp add: parseJsonBody_def)
  with handler_put [OF assms(1-3), of e ps] assms(4) Some show ?thesis
    by (simp add: json_response_def)
qed

theorem update_body_check_witness:
  "(status (fst (handler
      \<lparr>entropy = 0, now = ''2025-06-01T12:00:00.000Z'', local_time = [], deployment_id = None\<rparr>
      \<lparr>req_method = ''PUT'', path = ''/api/posts/1'', req_json = Some (JObj [])\<rparr> posts)) = 200)
   \<and> (status (fst (handler
      \<lparr>entropy = 0, now = ''2025-06-01T12:00:00.000Z'', local_time = [], deployment_id = None\<rparr>
      \<lparr>req_method = ''PUT'', path = ''/api/posts/1'', req_json = Some (JObj [])\<rparr> posts)) \<noteq> 400)"
proof -
  have v: "valid_id ''1''" by (simp add: valid_id_def id_char_def)
  have f: "findIndex (\<lambda>p. post_id p = ''1'') posts = Some 0" by (simp add: posts_def)
  show ?thesis
    using update_body_check [of
      "\<lparr>req_method = ''PUT'', path = ''/api/posts/1'', req_json = Some (JObj [])\<rparr>" "''1''"
      posts 0
      "\<lparr>entropy = 0, now = ''2025-06-01T12:00:00.000Z'', local_time = [], deployment_id = None\<rparr>"]
      v f
    by simp
qed

text \<open>
  Claim C3 as stated fails for \<open>main.js\<close>: the JSON response of its \<open>/data\<close> route has
  the single header \<open>content-type: application/json\<close> and none of the three CORS headers.
\<close>

theorem data_route_headers_counterexample:
  "main_handler
     \<lparr>entropy = 0, now = ''2025-06-01T12:00:00.000Z'', local_time = [], deployment_id = None\<rparr>
     \<lparr>req_method = ''GET'', path = ''/data'', req_json = None\<rparr> =
   \<lparr>status = 200, headers = [(''content-type'', ''application/json'')],
    body = JsonBody (Data ''This is JSON data from Deno Deploy'' ''2025-06-01T12:00:00.000Z''
             ''development'')\<rparr>"
  by (simp add: main_handler_def)

text \<open>
  Claim C3, amended. In \<open>blog-api.js\<close> every response other than the HTML home page
  (any non-\<open>OPTIONS\<close> request for \<open>/\<close>) carries exactly the four headers; in
  \<open>main.js\<close> the only JSON response is that of \<open>/data\<close>, and it carries
  \<open>content-type: application/json\<close> alone.
\<close>

theorem json_response_headers:
  "(body (fst (handler e req ps)) = HtmlBody \<longleftrightarrow> req_method req \<noteq> ''OPTIONS'' \<and> path req = ''/'')
   \<and> (body (fst (handler e req ps)) \<noteq> HtmlBody \<longrightarrow>
        headers (fst (handler e req ps)) =
          [(''content-type'', ''application/json''),
           (''Access-Control-Allow-Origin'', ''*''),
           (''Access-Control-Allow-Methods'', ''GET, POST, PUT, DELETE, OPTIONS''),
           (''Access-Control-Allow-Headers'', ''Content-Type'')])
   \<and> ((\<exists>p. body (main_handler e req) = JsonBody p) \<longleftrightarrow> path req = ''/data'')
   \<and> (path req = ''/data'' \<longrightarrow>
        headers (main_handler e req) = [(''content-type'', ''application/json'')])"
proof -
  have "(\<exists>p. body (main_handler e req) = JsonBody p) \<longleftrightarrow> path req = ''/data''"
    by (simp add: main_handler_def)
  moreover have "path req = ''/data'' \<longrightarrow>
        headers (main_handler e req) = [(''content-type'', ''application/json'')]"
    by (simp add: main_handler_def)
  ultimately show ?thesis
    using handler_headers [of e req ps] handler_html [of e req ps]
    by (simp add: cors_headers_def jsonHeaders_def)
qed

theorem json_response_headers_witness:
  "body (fst (handler
     \<lparr>entropy = 0, now = ''2025-06-01T12:00:00.000Z'', local_time = [], deployment_id = None\<rparr>
     \<lparr>req_method = ''GET'', path = ''/api/posts/nope'', req_json = None\<rparr> posts)) \<noteq> HtmlBody
   \<and> headers (fst (handler
     \<lparr>entropy = 0, now = ''2025-06-01T12:00:00.000Z'', local_time = [], deployment_id = None\<rparr>
     \<lparr>req_method = ''GET'', path = ''/api/posts/nope'', req_json = None\<rparr> posts)) =
          [(''content-type'', ''application/json''),
           (''Access-Control-Allow-Origin'', ''*''),
           (''Access-Control-Allow-Methods'', ''GET, POST, PUT, DELETE, OPTIONS''),
           (''Access-Control-Allow-Headers'', ''Content-Type'')]
   \<and> headers (main_handler
     \<lparr>entropy = 0, now = ''2025-06-01T12:00:00.000Z'', local_time = [], deployment_id = None\<rparr>
     \<lparr>req_method = ''GET'', path = ''/data'', req_json = None\<rparr>) =
          [(''content-type'', ''application/json'')]"
  using json_response_headers [of
     "\<lparr>entropy = 0, now = ''2025-06-01T12:00:00.000Z'', local_time = [], deployment_id = None\<rparr>"
     "\<lparr>req_method = ''GET'', path = ''/api/posts/nope'', req_json = None\<rparr>" posts]
    json_response_headers [of
     "\<lparr>entropy = 0, now = ''2025-06-01T12:00:00.000Z'', local_time = [], deployment_id = None\<rparr>"
     "\<lparr>req_method = ''GET'', path = ''/data'', req_json = None\<rparr>" posts]
  by simp

text \<open>
  Claim C9. In any store reached from the two seed posts by serving requests, a
  \<open>POST /api/posts\<close> with truthy title and content and no author creates a post whose
  author is \<open>Anonymous\<close>, whose \<open>createdAt\<close> is the current time, and whose id is the
  36-character string of \<open>crypto.randomUUID()\<close>: non-empty, and the id of no post in the
  store. The handler does not compare ids. What is assumed is about the random source
  alone: the bits it supplied to the creating requests so far, this one included, are
  pairwise different in the 122 positions that a UUID prints. That the printed UUIDs
  then differ (\<open>randomUUID_eq\<close>), and that every stored id is a seed id or one of
  those UUIDs (\<open>reachable_store\<close>), is proved.
\<close>

theorem create_defaults_unused_id:
  assumes "req_method req = ''POST''" and "path req = ''/api/posts''"
    and "req_json req = Some b"
    and "get_prop b ''title'' = Some t" and "truthy t"
    and "get_prop b ''content'' = Some c" and "truthy c"
    and "get_prop b ''author'' = None"
    and "ps = snd (serve evs posts)"
    and "distinct (map uuid_bits (entropies (evs @ [(e, req)])))"
  shows "handler e req ps =
    (\<lparr>status = 201, headers = cors_headers,
      body = JsonBody (Post \<lparr>post_id = generateId e, title = t, content = c,
               author = JStr ''Anonymous'', createdAt = now e, updatedAt = None\<rparr>)\<rparr>,
     ps @ [\<lparr>post_id = generateId e, title = t, content = c,
            author = JStr ''Anonymous'', createdAt = now e, updatedAt = None\<rparr>])
    \<and> generateId e \<noteq> [] \<and> length (generateId e) = 36
    \<and> generateId e \<notin> post_id ` set ps"
proof -
  have b: "parseJsonBody req = b" using assms(3) by (simp add: parseJsonBody_def)
  have "truthy b" using assms(4) by (cases b) simp_all
  then have cr: "creates req" using assms(1-7) b by (simp add: creates_def)
  have len: "length (generateId e) = 36" by (simp add: generateId_def length_randomUUID)
  have "distinct (draws (evs @ [(e, req)]))" using assms(10) by (rule distinct_draws)
  then have d: "distinct (draws evs)" "generateId e \<notin> set (draws evs)"
    using cr by (simp_all add: draws_append)
  have "generateId e \<noteq> ''1''" "generateId e \<noteq> ''2''" using len by auto
  with reachable_store(2) [OF d(1)] d(2) have fresh: "generateId e \<notin> post_id ` set ps"
    unfolding assms(9) by blast
  from create_accepts [OF cr, of e ps] assms(4,6,8) b
  have "handler e req ps =
    (\<lparr>status = 201, headers = cors_headers,
      body = JsonBody (Post \<lparr>post_id = generateId e, title = t, content = c,
               author = JStr ''Anonymous'', createdAt = now e, updatedAt = None\<rparr>)\<rparr>,
     ps @ [\<lparr>post_id = generateId e, title = t, content = c,
            author = JStr ''Anonymous'', createdAt = now e, updatedAt = None\<rparr>])"
    by (simp add: json_response_def or_else_def)
  with fresh len show ?thesis by auto
qed

text \<open>
  Claim C5. After a \<open>POST /api/posts\<close> answered with 201, the response holds a post
  \<open>p\<close>, the store is the old one followed by \<open>p\<close>, and a \<open>GET /api/posts/{id}\<close> with the
  id of \<open>p\<close> served next answers 200 with the very same record \<open>p\<close> and leaves the store
  alone. The store before the create is any store reached from the seeds while the
  runtime returned no UUID twice.
\<close>

theorem create_then_fetch:
  assumes "ps = snd (serve evs posts)"
    and "distinct (draws (evs @ [(e, req)]))"
    and "handler e req ps = (resp, ps')" and "status resp = 201"
    and "req_method g = ''GET''"
  shows "\<exists>p. body resp = JsonBody (Post p) \<and> ps' = ps @ [p] \<and>
           (path g = ''/api/posts/'' @ post_id p \<longrightarrow>
              handler e' g ps' =
                (\<lparr>status = 200, headers = cors_headers, body = JsonBody (Post p)\<rparr>, ps'))"
proof -
  have cr: "creates req"
    using status_201_creates [of e req ps] assms(3,4) by simp
  let ?p = "\<lparr>post_id = generateId e,
        title = the (get_prop (parseJsonBody req) ''title''),
        content = the (get_prop (parseJsonBody req) ''content''),
        author = or_else (get_prop (parseJsonBody req) ''author'') (JStr ''Anonymous''),
        createdAt = now e, updatedAt = None\<rparr>"
  from create_accepts [OF cr, of e ps] assms(3)
  have r: "resp = json_response 201 (Post ?p)" "ps' = ps @ [?p]" by simp_all
  have len: "length (generateId e) = 36" by (simp add: generateId_def length_randomUUID)
  have v: "valid_id (post_id ?p)" by (simp add: generateId_def valid_randomUUID)
  have d: "distinct (draws evs)" "generateId e \<notin> set (draws evs)"
    using assms(2) cr by (simp_all add: draws_append)
  have "generateId e \<noteq> ''1''" "generateId e \<noteq> ''2''" using len by auto
  with reachable_store(2) [OF d(1)] d(2) have fresh: "generateId e \<notin> post_id ` set ps"
    unfolding assms(1) by blast
  then have "\<forall>q\<in>set ps. post_id q \<noteq> generateId e" by (metis imageI)
  then have "\<forall>q\<in>set ps. \<not> post_id q = post_id ?p" by simp
  then have f: "find (\<lambda>q. post_id q = post_id ?p) (ps @ [?p]) = Some ?p"
    by (rule find_snoc_fresh) simp
  have "path g = ''/api/posts/'' @ post_id ?p \<longrightarrow>
      handler e' g ps' = (\<lparr>status = 200, headers = cors_headers, body = JsonBody (Post ?p)\<rparr>, ps')"
  proof
    assume pg: "path g = ''/api/posts/'' @ post_id ?p"
    from handler_get [OF assms(5) pg v, of e' ps'] f r(2)
    show "handler e' g ps' =
        (\<lparr>status = 200, headers = cors_headers, body = JsonBody (Post ?p)\<rparr>, ps')"
      by (simp add: json_response_def)
  qed
  moreover have "body resp = JsonBody (Post ?p)" using r(1) by (simp add: json_response_def)
  ultimately show ?thesis using r(2) by blast
qed

text \<open>
  Claim C6. For an id \<open>k\<close> present in a store reached from the seeds (no UUID returned
  twice), \<open>DELETE /api/posts/k\<close> answers 200 with the message and the removed record
  (the post at the index found), and on the resulting store both \<open>GET /api/posts/k\<close> and
  a second \<open>DELETE /api/posts/k\<close> answer 404 \<open>Post not found\<close> and change nothing.
\<close>

theorem delete_then_gone:
  assumes "ps = snd (serve evs posts)" and "distinct (draws evs)"
    and "k \<in> post_id ` set ps"
    and "req_method d = ''DELETE''" and "path d = ''/api/posts/'' @ k"
    and "req_method g = ''GET''" and "path g = ''/api/posts/'' @ k"
  shows "\<exists>i. i < length ps \<and> post_id (ps ! i) = k \<and>
     handler e d ps =
       (\<lparr>status = 200, headers = cors_headers,
         body = JsonBody (Deleted ''Post deleted successfully'' (ps ! i))\<rparr>,
        take i ps @ drop (Suc i) ps) \<and>
     handler e' g (take i ps @ drop (Suc i) ps) =
       (\<lparr>status = 404, headers = cors_headers, body = JsonBody (Error ''Post not found'')\<rparr>,
        take i ps @ drop (Suc i) ps) \<and>
     handler e'' d (take i ps @ drop (Suc i) ps) =
       (\<lparr>status = 404, headers = cors_headers, body = JsonBody (Error ''Post not found'')\<rparr>,
        take i ps @ drop (Suc i) ps)"
proof -
  have v: "valid_id k" using reachable_valid [OF assms(2)] assms(1,3) by simp
  have dist: "distinct (map post_id ps)"
    using reachable_store(1) [OF assms(2)] assms(1) by simp
  from assms(3) have "\<exists>x\<in>set ps. post_id x = k" by auto
  then obtain i where fi: "findIndex (\<lambda>p. post_id p = k) ps = Some i"
    using findIndex_present [of ps "\<lambda>p. post_id p = k"] by blast
  from findIndex_Some [OF fi] have i: "i < length ps" "post_id (ps ! i) = k" by simp_all
  let ?ps' = "take i ps @ drop (Suc i) ps"
  have "k \<notin> post_id ` set ?ps'"
    using take_drop_ids(2) [OF dist i(1)] unfolding i(2) .
  then have gone: "\<forall>q\<in>set ?ps'. \<not> post_id q = k" by (metis imageI)
  then have f1: "find (\<lambda>p. post_id p = k) ?ps' = None" by (rule find_absent)
  from gone have f2: "findIndex (\<lambda>p. post_id p = k) ?ps' = None"
    by (simp only: findIndex_None)
  have h1: "handler e d ps =
       (\<lparr>status = 200, headers = cors_headers,
         body = JsonBody (Deleted ''Post deleted successfully'' (ps ! i))\<rparr>, ?ps')"
    using handler_delete [OF assms(4,5) v, of e ps] fi by (simp add: json_response_def)
  have h2: "handler e' g ?ps' =
       (\<lparr>status = 404, headers = cors_headers, body = JsonBody (Error ''Post not found'')\<rparr>, ?ps')"
    using handler_get [OF assms(6,7) v, of e' ?ps'] f1 by (simp add: json_response_def)
  have h3: "handler e'' d ?ps' =
       (\<lparr>status = 404, headers = cors_headers, body = JsonBody (Error ''Post not found'')\<rparr>, ?ps')"
    using handler_delete [OF assms(4,5) v, of e'' ?ps'] f2 by (simp add: json_response_def)
  from i h1 h2 h3 show ?thesis by blast
qed

theorem create_defaults_unused_id_witness:
  "generateId \<lparr>entropy = 5, now = ''2025-06-02T08:30:00.000Z'', local_time = [], deployment_id = None\<rparr>
     \<notin> post_id ` set (snd (serve
        [(\<lparr>entropy = 0, now = ''2025-06-01T12:00:00.000Z'', local_time = [], deployment_id = None\<rparr>,
          \<lparr>req_method = ''POST'', path = ''/api/posts'',
           req_json = Some (JObj [(''title'', JStr ''First''), (''content'', JStr ''Text'')])\<rparr>)]
        posts))
   \<and> handler
      \<lparr>entropy = 5, now = ''2025-06-02T08:30:00.000Z'', local_time = [], deployment_id = None\<rparr>
      \<lparr>req_method = ''POST'', path = ''/api/posts'',
       req_json = Some (JObj [(''title'', JStr ''Hi''), (''content'', JStr ''World'')])\<rparr>
      (snd (serve
        [(\<lparr>entropy = 0, now = ''2025-06-01T12:00:00.000Z'', local_time = [], deployment_id = None\<rparr>,
          \<lparr>req_method = ''POST'', path = ''/api/posts'',
           req_json = Some (JObj [(''title'', JStr ''First''), (''content'', JStr ''Text'')])\<rparr>)]
        posts)) =
    (\<lparr>status = 201, headers = cors_headers,
      body = JsonBody (Post \<lparr>post_id = ''00000000-0000-4000-8000-000000000005'',
               title = JStr ''Hi'', content = JStr ''World'',
               author = JStr ''Anonymous'', createdAt = ''2025-06-02T08:30:00.000Z'',
               updatedAt = None\<rparr>)\<rparr>,
     snd (serve
        [(\<lparr>entropy = 0, now = ''2025-06-01T12:00:00.000Z'', local_time = [], deployment_id = None\<rparr>,
          \<lparr>req_method = ''POST'', path = ''/api/posts'',
           req_json = Some (JObj [(''title'', JStr ''First''), (''content'', JStr ''Text'')])\<rparr>)]
        posts) @
     [\<lparr>post_id = ''00000000-0000-4000-8000-000000000005'',
       title = JStr ''Hi'', content = JStr ''World'',
       author = JStr ''Anonymous'', createdAt = ''2025-06-02T08:30:00.000Z'',
       updatedAt = None\<rparr>])"
proof -
  let ?e0 = "\<lparr>entropy = 0, now = ''2025-06-01T12:00:00.000Z'', local_time = [], deployment_id = None\<rparr>"
  let ?r0 = "\<lparr>req_method = ''POST'', path = ''/api/posts'',
           req_json = Some (JObj [(''title'', JStr ''First''), (''content'', JStr ''Text'')])\<rparr>"
  let ?e1 = "\<lparr>entropy = 5, now = ''2025-06-02T08:30:00.000Z'', local_time = [], deployment_id = None\<rparr>"
  let ?r1 = "\<lparr>req_method = ''POST'', path = ''/api/posts'',
       req_json = Some (JObj [(''title'', JStr ''Hi''), (''content'', JStr ''World'')])\<rparr>"
  have u0: "randomUUID 0 = ''00000000-0000-4000-8000-000000000000''"
    by (simp add: randomUUID_def hex_byte_def hex_digit_def byte_at_def)
  have u1: "randomUUID 5 = ''00000000-0000-4000-8000-000000000005''"
    by (simp add: randomUUID_def hex_byte_def hex_digit_def byte_at_def)
  have c: "creates ?r0" "creates ?r1" by (simp_all add: creates_def parseJsonBody_def)
  have d: "distinct (map uuid_bits (entropies ([(?e0, ?r0)] @ [(?e1, ?r1)])))"
    using c by (simp add: uuid_bits_def byte_at_def)
  have g: "generateId ?e1 = ''00000000-0000-4000-8000-000000000005''"
    by (simp add: generateId_def u1)
  from create_defaults_unused_id [where req = ?r1 and e = ?e1 and evs = "[(?e0, ?r0)]"
      and b = "JObj [(''title'', JStr ''Hi''), (''content'', JStr ''World'')]"
      and t = "JStr ''Hi''" and c = "JStr ''World''", OF _ _ _ _ _ _ _ _ refl d]
  show ?thesis unfolding g by simp
qed

theorem create_then_fetch_witness:
  "handler
     \<lparr>entropy = 9, now = ''2025-06-03T00:00:00.000Z'', local_time = [], deployment_id = None\<rparr>
     \<lparr>req_method = ''GET'', path = ''/api/posts/00000000-0000-4000-8000-000000000000'',
      req_json = None\<rparr>
     (posts @ [\<lparr>post_id = ''00000000-0000-4000-8000-000000000000'',
               title = JStr ''Hi'', content = JStr ''World'',
               author = JStr ''Anonymous'', createdAt = ''2025-06-01T12:00:00.000Z'',
               updatedAt = None\<rparr>]) =
   (\<lparr>status = 200, headers = cors_headers,
     body = JsonBody (Post \<lparr>post_id = ''00000000-0000-4000-8000-000000000000'',
               title = JStr ''Hi'', content = JStr ''World'',
               author = JStr ''Anonymous'', createdAt = ''2025-06-01T12:00:00.000Z'',
               updatedAt = None\<rparr>)\<rparr>,
    posts @ [\<lparr>post_id = ''00000000-0000-4000-8000-000000000000'',
               title = JStr ''Hi'', content = JStr ''World'',
               author = JStr ''Anonymous'', createdAt = ''2025-06-01T12:00:00.000Z'',
               updatedAt = None\<rparr>])"
proof -
  let ?e = "\<lparr>entropy = 0, now = ''2025-06-01T12:00:00.000Z'', local_time = [], deployment_id = None\<rparr>"
  let ?r = "\<lparr>req_method = ''POST'', path = ''/api/posts'',
       req_json = Some (JObj [(''title'', JStr ''Hi''), (''content'', JStr ''World'')])\<rparr>"
  let ?p = "\<lparr>post_id = ''00000000-0000-4000-8000-000000000000'',
               title = JStr ''Hi'', content = JStr ''World'',
               author = JStr ''Anonymous'', createdAt = ''2025-06-01T12:00:00.000Z'',
               updatedAt = None\<rparr>"
  let ?resp = "\<lparr>status = 201, headers = cors_headers, body = JsonBody (Post ?p)\<rparr>"
  let ?g = "\<lparr>req_method = ''GET'', path = ''/api/posts/00000000-0000-4000-8000-000000000000'',
      req_json = None\<rparr>"
  have u0: "randomUUID 0 = ''00000000-0000-4000-8000-000000000000''"
    by (simp add: randomUUID_def hex_byte_def hex_digit_def byte_at_def)
  have c: "creates ?r" by (simp add: creates_def parseJsonBody_def)
  have h: "handler ?e ?r posts = (?resp, posts @ [?p])"
    using create_accepts [OF c, of ?e posts]
    by (simp add: generateId_def u0 parseJsonBody_def or_else_def json_response_def)
  have d: "distinct (draws ([] @ [(?e, ?r)]))" using c by simp
  have s: "posts = snd (serve [] posts)" by simp
  have st: "status ?resp = 201" by simp
  have m: "req_method ?g = ''GET''" by simp
  from create_then_fetch [OF s d h st m]
  show ?thesis by simp
qed

theorem delete_then_gone_witness:
  "handler
     \<lparr>entropy = 3, now = ''2025-06-03T00:00:00.000Z'', local_time = [], deployment_id = None\<rparr>
     \<lparr>req_method = ''GET'', path = ''/api/posts/1'', req_json = None\<rparr> (drop 1 posts) =
     (\<lparr>status = 404, headers = cors_headers, body = JsonBody (Error ''Post not found'')\<rparr>,
      drop 1 posts)
   \<and> handler
     \<lparr>entropy = 4, now = ''2025-06-03T00:00:01.000Z'', local_time = [], deployment_id = None\<rparr>
     \<lparr>req_method = ''DELETE'', path = ''/api/posts/1'', req_json = None\<rparr> (drop 1 posts) =
     (\<lparr>status = 404, headers = cors_headers, body = JsonBody (Error ''Post not found'')\<rparr>,
      drop 1 posts)
   \<and> handler
     \<lparr>entropy = 2, now = ''2025-06-02T00:00:00.000Z'', local_time = [], deployment_id = None\<rparr>
     \<lparr>req_method = ''DELETE'', path = ''/api/posts/1'', req_json = None\<rparr> posts =
     (\<lparr>status = 200, headers = cors_headers,
       body = JsonBody (Deleted ''Post deleted successfully'' (posts ! 0))\<rparr>, drop 1 posts)"
proof -
  let ?d = "\<lparr>req_method = ''DELETE'', path = ''/api/posts/1'', req_json = None\<rparr>"
  let ?g = "\<lparr>req_method = ''GET'', path = ''/api/posts/1'', req_json = None\<rparr>"
  have s: "posts = snd (serve [] posts)" by simp
  have d: "distinct (draws [])" by simp
  have k: "''1'' \<in> post_id ` set posts" by (simp add: posts_def)
  from delete_then_gone [OF s d k, of ?d ?g
      "\<lparr>entropy = 2, now = ''2025-06-02T00:00:00.000Z'', local_time = [], deployment_id = None\<rparr>"
      "\<lparr>entropy = 3, now = ''2025-06-03T00:00:00.000Z'', local_time = [], deployment_id = None\<rparr>"
      "\<lparr>entropy = 4, now = ''2025-06-03T00:00:01.000Z'', local_time = [], deployment_id = None\<rparr>"]
  obtain i where i: "i < length posts" "post_id (posts ! i) = ''1''"
    and h: "handler \<lparr>entropy = 2, now = ''2025-06-02T00:00:00.000Z'', local_time = [], deployment_id = None\<rparr>
              ?d posts =
       (\<lparr>status = 200, headers = cors_headers,
         body = JsonBody (Deleted ''Post deleted successfully'' (posts ! i))\<rparr>,
        take i posts @ drop (Suc i) posts)"
      "handler \<lparr>entropy = 3, now = ''2025-06-03T00:00:00.000Z'', local_time = [], deployment_id = None\<rparr>
         ?g (take i posts @ drop (Suc i) posts) =
       (\<lparr>status = 404, headers = cors_headers, body = JsonBody (Error ''Post not found'')\<rparr>,
        take i posts @ drop (Suc i) posts)"
      "handler \<lparr>entropy = 4, now = ''2025-06-03T00:00:01.000Z'', local_time = [], deployment_id = None\<rparr>
         ?d (take i posts @ drop (Suc i) posts) =
       (\<lparr>status = 404, headers = cors_headers, body = JsonBody (Error ''Post not found'')\<rparr>,
        take i posts @ drop (Suc i) posts)"
    by auto
  have "length posts = 2" by (simp add: posts_def)
  with i(1) have "i = 0 \<or> i = 1" by auto
  moreover have "post_id (posts ! 1) = ''2''" by (simp add: posts_def)
  ultimately have "i = 0" using i(2) by auto
  with h show ?thesis by simp
qed

text \<open>
  Claim C7. Serve any requests, none of them a \<open>DELETE\<close>, starting from the two seed
  posts, and let \<open>N\<close> be the number of 201 responses. Then \<open>GET /api/posts\<close> answers 200
  with the whole store, which has \<open>N + 2\<close> posts whose ids are those of the seeds followed
  by those of the created posts in the order of creation; without a \<open>PUT\<close> in between,
  the store is exactly the seeds followed by the created records. Listing returns the
  store as it is.
\<close>

theorem list_after_creates:
  assumes "list_all (\<lambda>(e, r). req_method r \<noteq> ''DELETE'') evs"
    and "serve evs posts = (resps, ps)"
    and "req_method g = ''GET''" and "path g = ''/api/posts''"
  shows "handler e g ps =
           (\<lparr>status = 200, headers = cors_headers, body = JsonBody (Posts ps)\<rparr>, ps)
       \<and> length ps = length (created resps) + 2
       \<and> map post_id ps = [''1'', ''2''] @ map post_id (created resps)
       \<and> (list_all (\<lambda>(e, r). req_method r \<noteq> ''PUT'') evs \<longrightarrow> ps = posts @ created resps)"
proof -
  have r: "resps = fst (serve evs posts)" "ps = snd (serve evs posts)"
    using assms(2) by simp_all
  have ids: "map post_id ps = [''1'', ''2''] @ map post_id (created resps)"
    using serve_created_ids [OF assms(1), of posts] unfolding r by (simp add: seed_ids)
  then have "length (map post_id ps) = length ([''1'', ''2''] @ map post_id (created resps))"
    by simp
  then have len: "length ps = length (created resps) + 2" by simp
  have ex: "list_all (\<lambda>(e, r). req_method r \<noteq> ''PUT'') evs \<longrightarrow> ps = posts @ created resps"
  proof
    assume "list_all (\<lambda>(e, r). req_method r \<noteq> ''PUT'') evs"
    with assms(1) have "list_all (\<lambda>(e, r). req_method r \<noteq> ''DELETE'' \<and> req_method r \<noteq> ''PUT'') evs"
      by (auto simp: list_all_iff)
    from serve_created [OF this, of posts] show "ps = posts @ created resps"
      unfolding r .
  qed
  from handler_list [OF assms(3,4), of e ps] ids len ex show ?thesis
    by (simp add: json_response_def)
qed

theorem list_after_creates_witness:
  "handler
     \<lparr>entropy = 8, now = ''2025-06-03T00:00:00.000Z'', local_time = [], deployment_id = None\<rparr>
     \<lparr>req_method = ''GET'', path = ''/api/posts'', req_json = None\<rparr>
     (posts @
      [\<lparr>post_id = ''00000000-0000-4000-8000-000000000000'',
        title = JStr ''First'', content = JStr ''Text'',
        author = JStr ''Ann'', createdAt = ''2025-06-01T12:00:00.000Z'', updatedAt = None\<rparr>,
       \<lparr>post_id = ''00000000-0000-4000-8000-000000000005'',
        title = JStr ''Hi'', content = JStr ''World'',
        author = JStr ''Anonymous'', createdAt = ''2025-06-02T08:30:00.000Z'', updatedAt = None\<rparr>]) =
   (\<lparr>status = 200, headers = cors_headers,
     body = JsonBody (Posts (posts @
      [\<lparr>post_id = ''00000000-0000-4000-8000-000000000000'',
        title = JStr ''First'', content = JStr ''Text'',
        author = JStr ''Ann'', createdAt = ''2025-06-01T12:00:00.000Z'', updatedAt = None\<rparr>,
       \<lparr>post_id = ''00000000-0000-4000-8000-000000000005'',
        title = JStr ''Hi'', content = JStr ''World'',
        author = JStr ''Anonymous'', createdAt = ''2025-06-02T08:30:00.000Z'', updatedAt = None\<rparr>]))\<rparr>,
    posts @
      [\<lparr>post_id = ''00000000-0000-4000-8000-000000000000'',
        title = JStr ''First'', content = JStr ''Text'',
        author = JStr ''Ann'', createdAt = ''2025-06-01T12:00:00.000Z'', updatedAt = None\<rparr>,
       \<lparr>post_id = ''00000000-0000-4000-8000-000000000005'',
        title = JStr ''Hi'', content = JStr ''World'',
        author = JStr ''Anonymous'', createdAt = ''2025-06-02T08:30:00.000Z'', updatedAt = None\<rparr>])
   \<and> length (posts @
      [\<lparr>post_id = ''00000000-0000-4000-8000-000000000000'',
        title = JStr ''First'', content = JStr ''Text'',
        author = JStr ''Ann'', createdAt = ''2025-06-01T12:00:00.000Z'', updatedAt = None\<rparr>,
       \<lparr>post_id = ''00000000-0000-4000-8000-000000000005'',
        title = JStr ''Hi'', content = JStr ''World'',
        author = JStr ''Anonymous'', createdAt = ''2025-06-02T08:30:00.000Z'', updatedAt = None\<rparr>]) = 2 + 2"
proof -
  let ?e0 = "\<lparr>entropy = 0, now = ''2025-06-01T12:00:00.000Z'', local_time = [], deployment_id = None\<rparr>"
  let ?r0 = "\<lparr>req_method = ''POST'', path = ''/api/posts'',
       req_json = Some (JObj [(''title'', JStr ''First''), (''content'', JStr ''Text''),
                              (''author'', JStr ''Ann'')])\<rparr>"
  let ?e1 = "\<lparr>entropy = 5, now = ''2025-06-02T08:30:00.000Z'', local_time = [], deployment_id = None\<rparr>"
  let ?r1 = "\<lparr>req_method = ''POST'', path = ''/api/posts'',
       req_json = Some (JObj [(''title'', JStr ''Hi''), (''content'', JStr ''World'')])\<rparr>"
  let ?p0 = "\<lparr>post_id = ''00000000-0000-4000-8000-000000000000'',
        title = JStr ''First'', content = JStr ''Text'',
        author = JStr ''Ann'', createdAt = ''2025-06-01T12:00:00.000Z'', updatedAt = None\<rparr>"
  let ?p1 = "\<lparr>post_id = ''00000000-0000-4000-8000-000000000005'',
        title = JStr ''Hi'', content = JStr ''World'',
        author = JStr ''Anonymous'', createdAt = ''2025-06-02T08:30:00.000Z'', updatedAt = None\<rparr>"
  let ?g = "\<lparr>req_method = ''GET'', path = ''/api/posts'', req_json = None\<rparr>"
  have u0: "randomUUID 0 = ''00000000-0000-4000-8000-000000000000''"
    by (simp add: randomUUID_def hex_byte_def hex_digit_def byte_at_def)
  have u1: "randomUUID 5 = ''00000000-0000-4000-8000-000000000005''"
    by (simp add: randomUUID_def hex_byte_def hex_digit_def byte_at_def)
  have c: "creates ?r0" "creates ?r1" by (simp_all add: creates_def parseJsonBody_def)
  have h0: "handler ?e0 ?r0 posts = (json_response 201 (Post ?p0), posts @ [?p0])"
    using create_accepts [OF c(1), of ?e0 posts]
    by (simp add: generateId_def u0 parseJsonBody_def or_else_def)
  have h1: "handler ?e1 ?r1 (posts @ [?p0]) =
      (json_response 201 (Post ?p1), posts @ [?p0, ?p1])"
    using create_accepts [OF c(2), of ?e1 "posts @ [?p0]"]
    by (simp add: generateId_def u1 parseJsonBody_def or_else_def)
  have sv: "serve [(?e0, ?r0), (?e1, ?r1)] posts =
      ([json_response 201 (Post ?p0), json_response 201 (Post ?p1)], posts @ [?p0, ?p1])"
    by (simp add: h0 h1)
  have nd: "list_all (\<lambda>(e, r). req_method r \<noteq> ''DELETE'') [(?e0, ?r0), (?e1, ?r1)]" by simp
  have m: "req_method ?g = ''GET''" "path ?g = ''/api/posts''" by simp_all
  from list_after_creates [OF nd sv m,
      of "\<lparr>entropy = 8, now = ''2025-06-03T00:00:00.000Z'', local_time = [], deployment_id = None\<rparr>"]
  show ?thesis by (simp add: json_response_def)
qed

end
